theory Spec2Isabelle
  imports Complex_Main "HOL-Library.Sublist"
begin

section \<open>Python strings\<close>

text \<open>
  A Python \<^verbatim>\<open>str\<close> is a sequence of Unicode code points; \<^verbatim>\<open>len\<close> counts code points.
  The canned texts of the repository are Korean, so a string is a list of code points
  and not a list of 8-bit characters. ASCII literals are written through \<open>asc\<close>, all
  other literals as code points in hexadecimal.
\<close>

type_synonym ustr = "nat list"

definition asc :: "string \<Rightarrow> ustr" where
  "asc s = map of_char s"

text \<open>
  Whitespace as \<^verbatim>\<open>str.strip()\<close>, \<^verbatim>\<open>str.split()\<close> and the pattern \<^verbatim>\<open>\s\<close> of
  \<^verbatim>\<open>re\<close> on \<^verbatim>\<open>str\<close> see it: the code points CPython lists as Unicode whitespace.
\<close>

definition is_space :: "nat \<Rightarrow> bool" where
  "is_space c =
     (if c < 0x80 then c = 0x20 \<or> (0x09 \<le> c \<and> c \<le> 0x0D) \<or> (0x1C \<le> c \<and> c \<le> 0x1F)
      else c = 0x85 \<or> c = 0xA0 \<or> c = 0x1680 \<or> (0x2000 \<le> c \<and> c \<le> 0x200A)
        \<or> c = 0x2028 \<or> c = 0x2029 \<or> c = 0x202F \<or> c = 0x205F \<or> c = 0x3000)"

definition lstrip :: "ustr \<Rightarrow> ustr" where
  "lstrip s = dropWhile is_space s"

definition rstrip :: "ustr \<Rightarrow> ustr" where
  "rstrip s = rev (dropWhile is_space (rev s))"

definition strip :: "ustr \<Rightarrow> ustr" where
  "strip s = rstrip (lstrip s)"

text \<open>\<^verbatim>\<open>s.rstrip("/")\<close>: trailing occurrences of one given character.\<close>

definition rstrip_char :: "nat \<Rightarrow> ustr \<Rightarrow> ustr" where
  "rstrip_char ch s = rev (dropWhile (\<lambda>c. c = ch) (rev s))"

text \<open>\<^verbatim>\<open>sep.join(xs)\<close>.\<close>

fun join :: "ustr \<Rightarrow> ustr list \<Rightarrow> ustr" where
  "join sep [] = []"
| "join sep [x] = x"
| "join sep (x # y # ys) = x @ sep @ join sep (y # ys)"

text \<open>\<^verbatim>\<open>sub in s\<close>: \<open>sub\<close> occurs in \<open>s\<close> as a contiguous block.\<close>

fun py_in :: "ustr \<Rightarrow> ustr \<Rightarrow> bool" where
  "py_in sub [] = (sub = [])"
| "py_in sub (c # cs) = (prefix sub (c # cs) \<or> py_in sub cs)"

text \<open>
  \<^verbatim>\<open>s.split()\<close> and \<^verbatim>\<open>re.findall(r"\S+", s)\<close>: the maximal runs of non-whitespace,
  in order. The first argument is the run being read.
\<close>

fun ws_split_acc :: "ustr \<Rightarrow> ustr \<Rightarrow> ustr list" where
  "ws_split_acc w [] = (if w = [] then [] else [w])"
| "ws_split_acc w (c # cs) =
     (if is_space c then (if w = [] then ws_split_acc [] cs else w # ws_split_acc [] cs)
      else ws_split_acc (w @ [c]) cs)"

definition ws_split :: "ustr \<Rightarrow> ustr list" where
  "ws_split s = ws_split_acc [] s"

text \<open>\<^verbatim>\<open>s.split(" ")\<close> with a one-character separator: never an empty list.\<close>

fun split_char_acc :: "nat \<Rightarrow> ustr \<Rightarrow> ustr \<Rightarrow> ustr list" where
  "split_char_acc sep w [] = [w]"
| "split_char_acc sep w (c # cs) =
     (if c = sep then w # split_char_acc sep [] cs else split_char_acc sep (w @ [c]) cs)"

definition split_char :: "nat \<Rightarrow> ustr \<Rightarrow> ustr list" where
  "split_char sep s = split_char_acc sep [] s"

text \<open>
  \<^verbatim>\<open>re.sub(r"\s+", " ", s)\<close>: every maximal run of whitespace becomes one space. The
  flag says that the previous character was whitespace.
\<close>

fun ws_collapse_from :: "bool \<Rightarrow> ustr \<Rightarrow> ustr" where
  "ws_collapse_from in_run [] = []"
| "ws_collapse_from in_run (c # cs) =
     (if is_space c then (if in_run then ws_collapse_from True cs else 0x20 # ws_collapse_from True cs)
      else c # ws_collapse_from False cs)"

definition ws_collapse :: "ustr \<Rightarrow> ustr" where
  "ws_collapse s = ws_collapse_from False s"

text \<open>
  \<^verbatim>\<open>s.count(sub)\<close> and \<^verbatim>\<open>len(re.findall(re.escape(sub), s))\<close> for a non-empty \<open>sub\<close>:
  the occurrences found from the left, none overlapping the one before. For the empty
  \<open>sub\<close> Python's \<^verbatim>\<open>count\<close> answers \<open>len(s) + 1\<close>.
\<close>

function count_sub :: "ustr \<Rightarrow> ustr \<Rightarrow> nat" where
  "count_sub sub s =
     (if sub = [] then length s + 1
      else if s = [] then 0
      else if prefix sub s then 1 + count_sub sub (drop (length sub) s)
      else count_sub sub (tl s))"
  by pat_completeness auto
termination
  by (relation "measure (\<lambda>(sub, s). length s)") (auto simp: prefix_def)

declare count_sub.simps [simp del]

text \<open>
  \<^verbatim>\<open>s.split(sep)\<close> for a non-empty separator: the pieces between the occurrences that
  \<^verbatim>\<open>count\<close> finds. Python raises \<^verbatim>\<open>ValueError\<close> on the empty separator; the only
  caller returns before the call when the separator is empty, and the model answers
  the unsplit string there.
\<close>

function split_sub_acc :: "ustr \<Rightarrow> ustr \<Rightarrow> ustr \<Rightarrow> ustr list" where
  "split_sub_acc sep w s =
     (if sep = [] then [w @ s]
      else if s = [] then [w]
      else if prefix sep s then w # split_sub_acc sep [] (drop (length sep) s)
      else split_sub_acc sep (w @ [hd s]) (tl s))"
  by pat_completeness auto
termination
  by (relation "measure (\<lambda>(sep, w, s). length s)") (auto simp: prefix_def)

declare split_sub_acc.simps [simp del]

definition split_sub :: "ustr \<Rightarrow> ustr \<Rightarrow> ustr list" where
  "split_sub sep s = split_sub_acc sep [] s"

section \<open>A/B statistical engine (services/next\_iteration.py)\<close>

text \<open>
  An event is a dictionary read with \<^verbatim>\<open>e.get("variant")\<close> and
  \<^verbatim>\<open>e.get("event_name")\<close>; a missing key reads as \<^verbatim>\<open>None\<close>.
\<close>

record event =
  variant :: "ustr option"
  event_name :: "ustr option"

record variant_stats =
  view :: nat
  click :: nat
  ctr :: real

record ab_summary =
  stats_A :: variant_stats
  stats_B :: variant_stats
  uplift :: real
  z_value :: real
  p_value :: real
  min_views_required :: int
  recommend_variant :: "ustr option"

text \<open>
  Python floats are read as real numbers. \<^verbatim>\<open>math.erf\<close> is a function of the C
  library and is a parameter of the model.
\<close>

definition phi_cdf :: "(real \<Rightarrow> real) \<Rightarrow> real \<Rightarrow> real" where
  "phi_cdf erf x = 0.5 * (1.0 + erf (x / sqrt 2.0))"

definition p_value_two_sided :: "(real \<Rightarrow> real) \<Rightarrow> real \<Rightarrow> real" where
  "p_value_two_sided erf zv = 2.0 * (1.0 - phi_cdf erf \<bar>zv\<bar>)"

definition count_events :: "string \<Rightarrow> string \<Rightarrow> event list \<Rightarrow> nat" where
  "count_events v n events =
     length (filter (\<lambda>e. variant e = Some (asc v) \<and> event_name e = Some (asc n)) events)"

definition ab_ctr_summary :: "(real \<Rightarrow> real) \<Rightarrow> event list \<Rightarrow> int \<Rightarrow> ab_summary" where
  "ab_ctr_summary erf events min_views =
     (let A_view = count_events ''A'' ''view'' events;
          A_click = count_events ''A'' ''cta_click'' events;
          B_view = count_events ''B'' ''view'' events;
          B_click = count_events ''B'' ''cta_click'' events;
          A_ctr = (if A_view > 0 then real A_click / real A_view else 0.0);
          B_ctr = (if B_view > 0 then real B_click / real B_view else 0.0);
          uplift = B_ctr - A_ctr;
          (zv, pval) =
            (if A_view > 0 \<and> B_view > 0 then
               (let p_pool = (if A_view + B_view > 0
                              then real (A_click + B_click) / real (A_view + B_view) else 0.0);
                    denom = sqrt (max (p_pool * (1 - p_pool) * (1 / real A_view + 1 / real B_view))
                                      (1 / 10 ^ 12));
                    zv = (B_ctr - A_ctr) / denom
                in (zv, p_value_two_sided erf zv))
             else (0.0, 1.0));
          recommend =
            (if int A_view \<ge> min_views \<and> int B_view \<ge> min_views \<and> pval < 0.1
             then Some (if B_ctr > A_ctr then asc ''B'' else asc ''A'') else None)
      in \<lparr> stats_A = \<lparr> view = A_view, click = A_click, ctr = A_ctr \<rparr>,
           stats_B = \<lparr> view = B_view, click = B_click, ctr = B_ctr \<rparr>,
           uplift = uplift, z_value = zv, p_value = pval,
           min_views_required = min_views, recommend_variant = recommend \<rparr>)"

text \<open>An event that the four counters of \<open>ab_ctr_summary\<close> all skip.\<close>

definition in_domain :: "event \<Rightarrow> bool" where
  "in_domain e =
     ((variant e = Some (asc ''A'') \<or> variant e = Some (asc ''B''))
      \<and> (event_name e = Some (asc ''view'') \<or> event_name e = Some (asc ''cta_click'')))"

section \<open>HTML helpers of the audit and fix engines\<close>

text \<open>
  Two tables of the Unicode database are parameters of the model: \<^verbatim>\<open>str.lower()\<close>
  (a function of the whole string: the lower case of a capital sigma depends on its
  neighbours) and the word characters of the pattern \<^verbatim>\<open>\b\<close> (alphanumerics and the
  underscore). Theorems hold for every choice of the two.
\<close>

record unicode_tables =
  lower_of :: "ustr \<Rightarrow> ustr"
  is_word :: "nat \<Rightarrow> bool"

text \<open>
  \<^verbatim>\<open>re.compile(r"<[^>]+>").sub(" ", html)\<close>: scanning from the left, a \<open><\<close> that is
  followed by at least one character other than \<open>>\<close> and later by a \<open>>\<close> is replaced,
  up to the first such \<open>>\<close>, by one space; any other character is kept.
\<close>

function sub_tags :: "ustr \<Rightarrow> ustr" where
  "sub_tags s =
     (if s = [] then []
      else if hd s = 0x3C \<and> tl s \<noteq> [] \<and> hd (tl s) \<noteq> 0x3E \<and> 0x3E \<in> set (tl s)
      then 0x20 # sub_tags (tl (dropWhile (\<lambda>x. x \<noteq> 0x3E) (tl s)))
      else hd s # sub_tags (tl s))"
  by pat_completeness auto
termination
proof (relation "measure length")
  fix s :: ustr
  assume "s \<noteq> []"
  have "length (dropWhile (\<lambda>x. x \<noteq> 0x3E) (tl s)) \<le> length (tl s)"
    by (rule length_dropWhile_le)
  with \<open>s \<noteq> []\<close> show "(tl (dropWhile (\<lambda>x. x \<noteq> 0x3E) (tl s)), s) \<in> measure length"
    by (cases s) auto
qed auto

declare sub_tags.simps [simp del]

text \<open>
  The opening of \<^verbatim>\<open><h1\b\<close> and \<^verbatim>\<open><h2\b\<close> under \<^verbatim>\<open>re.IGNORECASE\<close>: \<open><\<close>, \<open>h\<close> or
  \<open>H\<close>, the digit \<open>d\<close>, and then the end of the string or a character that is not a
  word character. The closing \<^verbatim>\<open></h1>\<close> likewise.
\<close>

definition opens_h :: "unicode_tables \<Rightarrow> nat \<Rightarrow> ustr \<Rightarrow> bool" where
  "opens_h U d s =
     (case s of
        a # b # c # rest \<Rightarrow>
          a = 0x3C \<and> (b = 0x68 \<or> b = 0x48) \<and> c = d
          \<and> (case rest of [] \<Rightarrow> True | e # _ \<Rightarrow> \<not> is_word U e)
      | _ \<Rightarrow> False)"

definition closes_h :: "nat \<Rightarrow> ustr \<Rightarrow> bool" where
  "closes_h d s =
     (case s of
        a # b # c # e # f # _ \<Rightarrow> a = 0x3C \<and> b = 0x2F \<and> (c = 0x68 \<or> c = 0x48) \<and> e = d \<and> f = 0x3E
      | _ \<Rightarrow> False)"

text \<open>\<^verbatim>\<open>(.*?)</h1>\<close> with \<^verbatim>\<open>re.DOTALL\<close>: what follows the first closing tag, if there is one.\<close>

fun after_close :: "nat \<Rightarrow> ustr \<Rightarrow> ustr option" where
  "after_close d [] = None"
| "after_close d (c # cs) =
     (if closes_h d (c # cs) then Some (drop 5 (c # cs)) else after_close d cs)"

text \<open>
  One match of \<^verbatim>\<open><h1\b[^>]*>(.*?)</h1>\<close> at the start of \<open>s\<close>: the opening, the first
  \<open>>\<close> after it, the first closing tag after that; the result is the rest of the string.
\<close>

definition match_block :: "unicode_tables \<Rightarrow> nat \<Rightarrow> ustr \<Rightarrow> ustr option" where
  "match_block U d s =
     (if opens_h U d s \<and> 0x3E \<in> set (drop 3 s)
      then after_close d (tl (dropWhile (\<lambda>x. x \<noteq> 0x3E) (drop 3 s)))
      else None)"

lemma after_close_shorter: "after_close d s = Some r \<Longrightarrow> length r < length s"
proof (induction s)
  case Nil
  then show ?case by simp
next
  case (Cons c cs)
  show ?case
  proof (cases "closes_h d (c # cs)")
    case True
    with Cons.prems show ?thesis by auto
  next
    case False
    with Cons show ?thesis by fastforce
  qed
qed

lemma match_block_shorter:
  assumes "match_block U d s = Some r"
  shows "length r < length s"
proof -
  from assms have ac: "after_close d (tl (dropWhile (\<lambda>x. x \<noteq> 0x3E) (drop 3 s))) = Some r"
    by (simp add: match_block_def split: if_splits)
  have "length (tl (dropWhile (\<lambda>x. x \<noteq> 0x3E) (drop 3 s))) \<le> length (drop 3 s)"
    using length_dropWhile_le [of "\<lambda>x. x \<noteq> 0x3E" "drop 3 s"] by simp
  with after_close_shorter [OF ac] show ?thesis by simp
qed

text \<open>\<^verbatim>\<open>len(RE.findall(html))\<close> for the two block patterns of the audit.\<close>

function count_blocks :: "unicode_tables \<Rightarrow> nat \<Rightarrow> ustr \<Rightarrow> nat" where
  "count_blocks U d s =
     (if s = [] then 0
      else case match_block U d s of
             Some rest \<Rightarrow> 1 + count_blocks U d rest
           | None \<Rightarrow> count_blocks U d (tl s))"
  by pat_completeness auto
termination
  by (relation "measure (\<lambda>(U, d, s). length s)") (auto dest: match_block_shorter)

declare count_blocks.simps [simp del]

section \<open>Audit engine (services/seo\_audit.py)\<close>

record faq_item =
  faq_q :: ustr
  faq_a :: ustr

text \<open>
  The page snapshot. A key that is missing or \<^verbatim>\<open>None\<close> reads as the empty string
  (\<^verbatim>\<open>page.get(k) or ""\<close>), the empty list or \<^verbatim>\<open>False\<close>.
\<close>

record page =
  meta_title :: ustr
  meta_description :: ustr
  canonical_url :: ustr
  og_title :: ustr
  og_description :: ustr
  h1 :: ustr
  body_html :: ustr
  cta :: ustr
  faq :: "faq_item list"
  has_faq_jsonld :: bool

text \<open>The strings "PASS", "WARN", "FAIL" and "INFO" of severities and verdicts.\<close>

datatype grade = PASS | WARN | FAIL | INFO

datatype rule = T001 | T002 | T003 | T004 | T005 | T006 | T007
  | C001 | C002 | C003 | C004 | C005 | C007 | E001 | E002 | S001 | S002

text \<open>
  An issue. Its \<^verbatim>\<open>message\<close> and \<^verbatim>\<open>fix_hint\<close> are display texts that nothing reads
  back; the model leaves them out.
\<close>

record issue =
  rule_id :: rule
  severity :: grade

record audit_signals =
  title_len :: nat
  desc_len :: nat
  h1_count :: nat
  h2_count :: nat
  word_count_sig :: nat
  primary_kw_in_h1 :: bool
  primary_kw_in_first120 :: bool
  supporting_kw_hits :: nat
  faq_count_sig :: nat
  has_faq_jsonld_sig :: bool
  primary_kw_density_pct :: real

record audit_result =
  overall :: grade
  score :: int
  issues :: "issue list"
  signals :: audit_signals

definition strip_tags_audit :: "ustr \<Rightarrow> ustr" where
  "strip_tags_audit html = sub_tags html"

definition norm :: "unicode_tables \<Rightarrow> ustr \<Rightarrow> ustr" where
  "norm U s = lower_of U (strip (ws_collapse s))"

definition word_count_audit :: "ustr \<Rightarrow> nat" where
  "word_count_audit text =
     (let t = ws_collapse (strip text) in if t = [] then 0 else length (split_char 0x20 t))"

text \<open>The list \<open>issues\<close> and the counter \<open>penalty\<close> that the closure \<open>add\<close> updates.\<close>

record audit_acc =
  acc_issues :: "issue list"
  acc_penalty :: int

definition add :: "rule \<Rightarrow> grade \<Rightarrow> int \<Rightarrow> audit_acc \<Rightarrow> audit_acc" where
  "add r sev p st =
     st \<lparr> acc_issues := acc_issues st @ [\<lparr> rule_id = r, severity = sev \<rparr>],
          acc_penalty := acc_penalty st + p \<rparr>"

definition banned :: "ustr list" where
  "banned =
     [[0xC644, 0xCE58], [0xCE58, 0xB8CC], [0xC989, 0xC2DC], [0xBB34, 0xC870, 0xAC74],
      asc ''100%'', [0xBD80, 0xC791, 0xC6A9, 0x20, 0xC5C6, 0xC74C],
      [0xC758, 0xC0AC, 0x20, 0xCD94, 0xCC9C], [0xC5FC, 0xC99D, 0x20, 0xCE58, 0xB8CC],
      [0xC544, 0xD1A0, 0xD53C, 0x20, 0xCE58, 0xB8CC],
      [0xD53C, 0xBD80, 0xBCD1, 0x20, 0xCE58, 0xB8CC]]"

definition disclaimer_candidates :: "ustr list" where
  "disclaimer_candidates =
     [[0xAC1C, 0xC778, 0xCC28], [0xD53C, 0xBD80, 0x20, 0xC0C1, 0xD0DC],
      [0xD328, 0xCE58, 0x20, 0xD14C, 0xC2A4, 0xD2B8],
      [0xBBFC, 0xAC10, 0xD55C, 0x20, 0xACBD, 0xC6B0]]"

text \<open>The complete entries of a FAQ list: question and answer both non-blank.\<close>

definition faq_complete :: "faq_item \<Rightarrow> bool" where
  "faq_complete x = (strip (faq_q x) \<noteq> [] \<and> strip (faq_a x) \<noteq> [])"

definition faq_count :: "faq_item list \<Rightarrow> nat" where
  "faq_count fs = length (filter faq_complete fs)"

text \<open>The verdict, from the issues (the last lines of \<open>seo_audit_page\<close>).\<close>

definition overall_of :: "issue list \<Rightarrow> grade" where
  "overall_of is =
     (if list_ex (\<lambda>i. severity i = FAIL) is then FAIL
      else (let warn_cnt = length (filter (\<lambda>i. severity i = WARN) is)
            in if warn_cnt \<ge> 2 then WARN else PASS))"

text \<open>
  The issues and the penalty after all rules. Every rule is evaluated; the only
  \<^verbatim>\<open>break\<close> ends the scan of the banned terms at the first term found, which adds
  E002 once. Float division is read as exact division.
\<close>

definition audit_rules :: "unicode_tables \<Rightarrow> page \<Rightarrow> ustr \<Rightarrow> ustr list \<Rightarrow> audit_signals \<Rightarrow> audit_acc" where
  "audit_rules U pg primary_keyword supporting_keywords sg =
     (let mtitle = strip (meta_title pg);
          meta_desc = strip (meta_description pg);
          canonical = strip (canonical_url pg);
          og_title' = strip (og_title pg);
          og_desc = strip (og_description pg);
          body_text = strip_tags_audit (body_html pg);
          primary = strip primary_keyword;
          supporting = map strip (filter (\<lambda>s. strip s \<noteq> []) supporting_keywords);
          density = primary_kw_density_pct sg;
          st = \<lparr> acc_issues = [], acc_penalty = 0 \<rparr>;
          st = (if mtitle = [] then add T001 FAIL 25
                else if \<not> (30 \<le> title_len sg \<and> title_len sg \<le> 60) then add T002 WARN 10
                else id) st;
          st = (if meta_desc = [] then add T003 FAIL 25
                else if \<not> (70 \<le> desc_len sg \<and> desc_len sg \<le> 160) then add T004 WARN 10
                else id) st;
          st = (if canonical = [] then add T005 WARN 10 else id) st;
          st = (if h1_count sg \<noteq> 1 then add T006 FAIL 25 else id) st;
          st = (if og_title' = [] \<or> og_desc = [] then add T007 INFO 2 else id) st;
          st = (if primary \<noteq> [] \<and> \<not> primary_kw_in_h1 sg then add C001 FAIL 25 else id) st;
          st = (if primary \<noteq> [] \<and> \<not> primary_kw_in_first120 sg then add C002 WARN 10 else id) st;
          st = (if supporting \<noteq> [] \<and> supporting_kw_hits sg < 2 then add C003 WARN 10 else id) st;
          st = (if h2_count sg < 3 then add C004 FAIL 25 else id) st;
          st = (if word_count_sig sg < 350 then add C005 WARN 10 else id) st;
          st = (if primary \<noteq> [] \<and> density > 3.0 then add C007 FAIL 25 else id) st;
          st = (if list_ex (\<lambda>w. w \<noteq> [] \<and> (py_in w body_text \<or> py_in w mtitle \<or> py_in w meta_desc)) banned
                then add E002 FAIL 25 else id) st;
          has_disclaimer = list_ex (\<lambda>x. py_in x body_text) disclaimer_candidates;
          st = (if \<not> has_disclaimer then add E001 WARN 10 else id) st;
          st = (if faq_count_sig sg < 3 then add S001 WARN 10 else id) st;
          st = (if faq_count_sig sg \<ge> 3 \<and> \<not> has_faq_jsonld_sig sg then add S002 WARN 10 else id) st
      in st)"

definition audit_signals_of :: "unicode_tables \<Rightarrow> page \<Rightarrow> ustr \<Rightarrow> ustr list \<Rightarrow> audit_signals" where
  "audit_signals_of U pg primary_keyword supporting_keywords =
     (let mtitle = strip (meta_title pg);
          meta_desc = strip (meta_description pg);
          h1' = strip (h1 pg);
          body = body_html pg;
          body_text = strip_tags_audit body;
          fq = faq pg;
          has_jsonld = (has_faq_jsonld pg \<or> length fq \<ge> 3);
          primary = strip primary_keyword;
          supporting = map strip (filter (\<lambda>s. strip s \<noteq> []) supporting_keywords);
          h1_cnt = (if body \<noteq> [] then count_blocks U 0x31 body else 0);
          h2_cnt = (if body \<noteq> [] then count_blocks U 0x32 body else 0);
          h1_cnt = (if h1' \<noteq> [] \<and> h1_cnt = 0 then 1 else h1_cnt);
          words = word_count_audit body_text;
          norm_primary = norm U primary;
          norm_h1 = norm U h1';
          norm_body = norm U body_text;
          in_h1 = (norm_primary \<noteq> [] \<and> py_in norm_primary norm_h1);
          first120 = join [0x20] (take 120 (split_char 0x20 body_text));
          in_first120 = (norm_primary \<noteq> [] \<and> py_in norm_primary (norm U first120));
          supporting_hits =
            length (filter (\<lambda>sk. norm U sk \<noteq> [] \<and> py_in (norm U sk) norm_body) supporting);
          primary_count = (if norm_primary \<noteq> [] then count_sub norm_primary norm_body else 0);
          density = (if words > 0 then (real primary_count / real (max words 1)) * 100.0 else 0.0)
      in \<lparr> title_len = length mtitle, desc_len = length meta_desc,
           h1_count = h1_cnt, h2_count = h2_cnt, word_count_sig = words,
           primary_kw_in_h1 = in_h1, primary_kw_in_first120 = in_first120,
           supporting_kw_hits = supporting_hits, faq_count_sig = faq_count fq,
           has_faq_jsonld_sig = has_jsonld, primary_kw_density_pct = density \<rparr>)"

definition seo_audit_page ::
    "unicode_tables \<Rightarrow> page \<Rightarrow> ustr \<Rightarrow> ustr list \<Rightarrow> ustr \<Rightarrow> audit_result" where
  "seo_audit_page U pg primary_keyword supporting_keywords intent =
     (let sg = audit_signals_of U pg primary_keyword supporting_keywords;
          st = audit_rules U pg primary_keyword supporting_keywords sg
      in \<lparr> overall = overall_of (acc_issues st),
           score = max 0 (100 - acc_penalty st),
           issues = acc_issues st,
           signals = sg \<rparr>)"

section \<open>Enforcement engine (services/seo\_fix.py)\<close>

definition strip_tags :: "ustr \<Rightarrow> ustr" where
  "strip_tags html = strip (ws_collapse (sub_tags html))"

definition word_count :: "ustr \<Rightarrow> nat" where
  "word_count text = length (ws_split text)"

text \<open>
  \<^verbatim>\<open>len(re.compile(r"<h2\b", re.IGNORECASE).findall(body))\<close>. A match is three characters
  long and only its first is \<open><\<close>, so no two matches overlap and every position counts.
\<close>

fun count_h2 :: "unicode_tables \<Rightarrow> ustr \<Rightarrow> nat" where
  "count_h2 U [] = 0"
| "count_h2 U (c # cs) = (if opens_h U 0x32 (c # cs) then 1 else 0) + count_h2 U cs"

definition ensure_nonempty :: "ustr \<Rightarrow> ustr \<Rightarrow> ustr" where
  "ensure_nonempty s fallback = (let s = strip s in if s \<noteq> [] then s else fallback)"

definition clamp_text_len :: "ustr \<Rightarrow> nat \<Rightarrow> nat \<Rightarrow> ustr \<Rightarrow> ustr" where
  "clamp_text_len s lo hi pad =
     (let s = strip s;
          s = (if s = [] then pad else s);
          s = (if length s < lo
               then (let need = lo - length s in take (lo + max 0 need) (s @ [0x20] @ pad))
               else s);
          s = (if length s > hi then rstrip (take hi s) else s)
      in s)"

text \<open>The intent string of purchase pages (three Hangul syllables).\<close>

definition purchase_intent :: ustr where
  "purchase_intent = [0xAD6C, 0xB9E4, 0xD615]"

definition intro_paragraph :: "ustr \<Rightarrow> ustr" where
  "intro_paragraph primary_kw =
     asc ''<p><b>'' @ primary_kw @ asc ''</b>''
     @ [0xB97C, 0x20, 0xCC3E, 0xB294, 0x20, 0xBD84, 0xB4E4, 0xC744, 0x20, 0xC704, 0xD574,
        0x2C, 0x20, 0xC774, 0x20, 0xD398, 0xC774, 0xC9C0, 0xB294, 0x20, 0xC120, 0xD0DD, 0x20,
        0xAE30, 0xC900, 0x2F, 0xC0AC, 0xC6A9, 0x20, 0xB8E8, 0xD2F4]
     @ asc ''/FAQ''
     @ [0xB97C, 0x20, 0xC0AC, 0xC2E4, 0x20, 0xAE30, 0xBC18, 0xC73C, 0xB85C, 0x20, 0xC815,
        0xB9AC, 0xD588, 0xC2B5, 0xB2C8, 0xB2E4]
     @ asc ''.</p>''"

definition ensure_primary_in_intro :: "ustr \<Rightarrow> ustr \<Rightarrow> ustr" where
  "ensure_primary_in_intro body primary_kw =
     (let plain = strip_tags body;
          first_120 = join [0x20] (take 120 (ws_split plain))
      in if primary_kw \<noteq> [] \<and> \<not> py_in primary_kw first_120
         then intro_paragraph primary_kw @ [0x0A] @ body
         else body)"

text \<open>
  The three phrases \<open>ensure_disclaimer\<close> looks for (individual differences, expert,
  adverse reaction). Only the first is also a phrase of the audit.
\<close>

definition fix_disclaimer_phrases :: "ustr list" where
  "fix_disclaimer_phrases =
     [[0xAC1C, 0xC778, 0xCC28], [0xC804, 0xBB38, 0xAC00], [0xC774, 0xC0C1, 0x20, 0xBC18, 0xC751]]"

definition disclaimer_block :: ustr where
  "disclaimer_block =
     asc ''<p><i>''
     @ [0x203B, 0x20, 0xC548, 0xB0B4, 0x3A, 0x20, 0xBCF8, 0x20, 0xB0B4, 0xC6A9, 0xC740, 0x20,
        0xC77C, 0xBC18, 0x20, 0xC815, 0xBCF4, 0xC774, 0xBA70, 0x20, 0xAC1C, 0xC778, 0x20,
        0xD53C, 0xBD80, 0x20, 0xC0C1, 0xD0DC, 0xC5D0, 0x20, 0xB530, 0xB77C, 0x20, 0xBC18,
        0xC751, 0xC774, 0x20, 0xB2E4, 0xB97C, 0x20, 0xC218, 0x20, 0xC788, 0xC2B5, 0xB2C8,
        0xB2E4, 0x2E, 0x20, 0xC0AC, 0xC6A9, 0x20, 0xC911, 0x20, 0xC774, 0xC0C1, 0x20, 0xBC18,
        0xC751, 0xC774, 0x20, 0xC788, 0xC73C, 0xBA74, 0x20, 0xC0AC, 0xC6A9, 0xC744, 0x20,
        0xC911, 0xB2E8, 0xD558, 0xACE0, 0x20, 0xC804, 0xBB38, 0xAC00, 0xC640, 0x20, 0xC0C1,
        0xB2F4, 0xD558, 0xC138, 0xC694]
     @ asc ''.</i></p>''"

definition ensure_disclaimer :: "ustr \<Rightarrow> ustr" where
  "ensure_disclaimer body =
     (let plain = strip_tags body
      in if list_ex (\<lambda>x. py_in x plain) fix_disclaimer_phrases then body
         else body @ [0x0A] @ disclaimer_block)"

definition supporting_line :: "ustr list \<Rightarrow> ustr" where
  "supporting_line ins =
     asc ''<p>''
     @ [0xAD00, 0xB828, 0x20, 0xD0A4, 0xC6CC, 0xB4DC, 0x20, 0xAE30, 0xC900, 0xC73C, 0xB85C,
        0xB294, 0x20]
     @ join (asc '', '') (map (\<lambda>x. asc ''<b>'' @ x @ asc ''</b>'') ins)
     @ [0x20, 0xAD00, 0xC810, 0xC5D0, 0xC11C, 0x20, 0xD568, 0xAED8, 0x20, 0xC0B4, 0xD3B4,
        0xBCF4, 0xB294, 0x20, 0xAC83, 0xC774, 0x20, 0xB3C4, 0xC6C0, 0xC774, 0x20, 0xB429,
        0xB2C8, 0xB2E4]
     @ asc ''.</p>''"

definition ensure_supporting_hits :: "unicode_tables \<Rightarrow> ustr \<Rightarrow> ustr list \<Rightarrow> nat \<Rightarrow> ustr" where
  "ensure_supporting_hits U body supporting min_hits =
     (let supporting = filter (\<lambda>s. s \<noteq> []) supporting
      in if supporting = [] then body
         else (let plain = lower_of U (strip_tags body);
                   hits = length (filter (\<lambda>s. py_in (lower_of U s) plain) supporting)
               in if hits \<ge> min_hits then body
                  else (let need = min_hits - hits;
                            ins = take (max 2 (need + 1)) supporting
                        in body @ [0x0A] @ supporting_line ins)))"

text \<open>The neutral phrase (two words) that replaces a keyword.\<close>

definition neutral_phrase :: ustr where
  "neutral_phrase = [0xD574, 0xB2F9, 0x20, 0xC81C, 0xD488]"

text \<open>
  The loop of \<open>reduce_keyword_density\<close> over \<open>parts[1:]\<close>: \<open>idx\<close> counts the
  occurrences of the keyword, \<open>out\<close> is the text rebuilt so far.
\<close>

fun density_loop :: "ustr \<Rightarrow> nat \<Rightarrow> ustr \<Rightarrow> ustr list \<Rightarrow> ustr" where
  "density_loop primary_kw idx out [] = out"
| "density_loop primary_kw idx out (p # ps) =
     (let idx = idx + 1;
          token = (if idx \<ge> 4 \<and> idx mod 2 = 0 then neutral_phrase else primary_kw)
      in density_loop primary_kw idx (out @ token @ p) ps)"

text \<open>Float division is read as exact division, \<open>max_density\<close> as the rational 0.03.\<close>

definition reduce_keyword_density :: "ustr \<Rightarrow> ustr \<Rightarrow> real \<Rightarrow> ustr" where
  "reduce_keyword_density body primary_kw max_density =
     (if primary_kw = [] then body
      else (let plain = strip_tags body;
                wc = word_count plain
            in if wc \<le> 0 then body
               else (let occ = count_sub primary_kw plain;
                         density = real occ / real (max wc 1)
                     in if density \<le> max_density then body
                        else (let parts = split_sub primary_kw body
                              in if length parts \<le> 1 then body
                                 else density_loop primary_kw 0 (hd parts) (tl parts)))))"

definition ensure_h1 :: "page \<Rightarrow> ustr \<Rightarrow> page" where
  "ensure_h1 fixed primary_kw = fixed \<lparr> h1 := ensure_nonempty (h1 fixed) primary_kw \<rparr>"

definition h2_section_1 :: "ustr \<Rightarrow> ustr" where
  "h2_section_1 primary_kw =
     asc ''<h2>'' @ primary_kw
     @ [0x20, 0xD575, 0xC2EC, 0x20, 0xD3EC, 0xC778, 0xD2B8]
     @ asc ''</h2><p>'' @ primary_kw
     @ [0xB97C, 0x20, 0xACE0, 0xB97C, 0x20, 0xB54C, 0xB294, 0x20, 0xBCF4, 0xC2B5, 0x20,
        0xC9C0, 0xC18D, 0xAC10, 0x2C, 0x20, 0xC0AC, 0xC6A9, 0xAC10, 0x2C, 0x20, 0xC131,
        0xBD84, 0x20, 0xAD6C, 0xC131, 0x2C, 0x20, 0xAC1C, 0xC778, 0x20, 0xD53C, 0xBD80, 0x20,
        0xCEE8, 0xB514, 0xC158, 0xC744, 0x20, 0xD568, 0xAED8, 0x20, 0xACE0, 0xB824, 0xD558,
        0xB294, 0x20, 0xAC83, 0xC774, 0x20, 0xC88B, 0xC2B5, 0xB2C8, 0xB2E4]
     @ asc ''.</p>''"

definition h2_section_2 :: ustr where
  "h2_section_2 =
     asc ''<h2>''
     @ [0xC131, 0xBD84, 0x2F, 0xAD6C, 0xC131, 0x20, 0xCCB4, 0xD06C]
     @ asc ''</h2><p>''
     @ [0xC138, 0xB77C, 0xB9C8, 0xC774, 0xB4DC, 0x2C, 0x20, 0xD310, 0xD14C, 0xB180, 0x20,
        0xB4F1, 0xC740, 0x20, 0xBCF4, 0xC2B5, 0x2F, 0xC9C4, 0xC815, 0x20, 0xB8E8, 0xD2F4,
        0xC5D0, 0xC11C, 0x20, 0xC790, 0xC8FC, 0x20, 0xC5B8, 0xAE09, 0xB429, 0xB2C8, 0xB2E4,
        0x2E, 0x20, 0xB2E4, 0xB9CC, 0x20, 0xAC1C, 0xC778, 0xCC28, 0xAC00, 0x20, 0xC788,
        0xC73C, 0xB2C8, 0x20, 0xD328, 0xCE58, 0x20, 0xD14C, 0xC2A4, 0xD2B8, 0xB97C, 0x20,
        0xAD8C, 0xC7A5, 0xD569, 0xB2C8, 0xB2E4]
     @ asc ''.</p>''"

definition h2_section_3 :: ustr where
  "h2_section_3 =
     asc ''<h2>''
     @ [0xC0AC, 0xC6A9, 0x20, 0xB8E8, 0xD2F4]
     @ asc ''</h2><p>''
     @ [0xC138, 0xC548, 0x20, 0xD6C4, 0x20, 0xD1A0, 0xB108, 0x20, 0xB2E4, 0xC74C, 0x20,
        0xB2E8, 0xACC4, 0xC5D0, 0xC11C, 0x20, 0xC801, 0xB2F9, 0xB7C9, 0xC744, 0x20, 0xC587,
        0xAC8C, 0x20, 0xD3B4, 0x20, 0xBC14, 0xB974, 0xACE0, 0x2C, 0x20, 0xAC74, 0xC870,
        0xD55C, 0x20, 0xBD80, 0xC704, 0xB294, 0x20, 0xC18C, 0xB7C9, 0xC744, 0x20, 0xB808,
        0xC774, 0xC5B4, 0xB9C1, 0xD558, 0xC138, 0xC694, 0x2E, 0x20, 0xB0AE, 0xC5D0, 0xB294,
        0x20, 0xC790, 0xC678, 0xC120, 0x20, 0xCC28, 0xB2E8, 0xC81C, 0xB85C, 0x20, 0xB9C8,
        0xBB34, 0xB9AC, 0xD558, 0xC138, 0xC694]
     @ asc ''.</p>''"

definition h2_section_4 :: ustr where
  "h2_section_4 =
     asc ''<h2>''
     @ [0xAD6C, 0xB9E4, 0x20, 0xC804, 0x20, 0xD655, 0xC778]
     @ asc ''</h2><ul><li>''
     @ [0xD53C, 0xBD80, 0x20, 0xD0C0, 0xC785, 0x2F, 0xBBFC, 0xAC10, 0xB3C4, 0xC640, 0xC758,
        0x20, 0xC801, 0xD569, 0xC131, 0x28, 0xD328, 0xCE58, 0x20, 0xD14C, 0xC2A4, 0xD2B8,
        0x20, 0xAD8C, 0xC7A5]
     @ asc '')</li><li>''
     @ [0xC81C, 0xD615, 0x2F, 0xC0AC, 0xC6A9, 0xAC10, 0x28, 0xACC4, 0xC808, 0x2F, 0xC2B5,
        0xB3C4, 0xC5D0, 0x20, 0xB530, 0xB77C, 0x20, 0xCCB4, 0xAC10, 0x20, 0xCC28, 0xC774]
     @ asc '')</li><li>''
     @ [0xC804, 0xC131, 0xBD84, 0x20, 0xBC0F, 0x20, 0xC54C, 0xB808, 0xB974, 0xAE30, 0x20,
        0xC720, 0xBC1C, 0x20, 0xAC00, 0xB2A5, 0x20, 0xC131, 0xBD84, 0x20, 0xD655, 0xC778]
     @ asc ''</li></ul>''"

definition ensure_h2_sections :: "unicode_tables \<Rightarrow> page \<Rightarrow> ustr \<Rightarrow> ustr \<Rightarrow> page" where
  "ensure_h2_sections U fixed primary_kw intent =
     (let body = body_html fixed;
          current = count_h2 U body;
          min_h2 = (if strip intent = purchase_intent then 3 else 2)
      in if current \<ge> min_h2 then fixed
         else (let sections =
                     [h2_section_1 primary_kw, h2_section_2, h2_section_3]
                     @ (if strip intent = purchase_intent then [h2_section_4] else []);
                   needed = max 0 (min_h2 - current)
               in if needed > 0
                  then fixed \<lparr> body_html := body @ [0x0A] @ join [0x0A] (take needed sections) \<rparr>
                  else fixed))"

definition faq_candidates :: "ustr \<Rightarrow> (ustr \<times> ustr) list" where
  "faq_candidates primary_kw =
     [(primary_kw
       @ [0xB294, 0x20, 0xBBFC, 0xAC10, 0x20, 0xD53C, 0xBD80, 0xB3C4, 0x20, 0xC0AC, 0xC6A9,
          0x20, 0xAC00, 0xB2A5, 0xD55C, 0xAC00, 0xC694, 0x3F],
       [0xAC1C, 0xC778, 0xCC28, 0xAC00, 0x20, 0xC788, 0xC73C, 0xBBC0, 0xB85C, 0x20, 0xC0AC,
        0xC6A9, 0x20, 0xC804, 0x20, 0xD328, 0xCE58, 0x20, 0xD14C, 0xC2A4, 0xD2B8, 0xB97C,
        0x20, 0xAD8C, 0xC7A5, 0xD569, 0xB2C8, 0xB2E4, 0x2E]),
      ([0xC544, 0xCE68, 0x2F, 0xC800, 0xB141, 0x20, 0xBAA8, 0xB450, 0x20, 0xC0AC, 0xC6A9,
        0xD574, 0xB3C4, 0x20, 0xB418, 0xB098, 0xC694, 0x3F],
       [0xC77C, 0xBC18, 0xC801, 0xC778, 0x20, 0xBCF4, 0xC2B5, 0x20, 0xB8E8, 0xD2F4, 0xC5D0,
        0xC11C, 0x20, 0xC544, 0xCE68, 0x2F, 0xC800, 0xB141, 0x20, 0xC0AC, 0xC6A9, 0xC774,
        0x20, 0xAC00, 0xB2A5, 0xD558, 0xBA70, 0x20, 0xD53C, 0xBD80, 0x20, 0xC0C1, 0xD0DC,
        0xC5D0, 0x20, 0xB530, 0xB77C, 0x20, 0xC0AC, 0xC6A9, 0xB7C9, 0xC744, 0x20, 0xC870,
        0xC808, 0xD558, 0xC138, 0xC694, 0x2E]),
      ([0xC5B4, 0xB5A4, 0x20, 0xC21C, 0xC11C, 0xB85C, 0x20, 0xBC14, 0xB974, 0xBA74, 0x20,
        0xC88B, 0xB098, 0xC694, 0x3F],
       [0xC138, 0xC548, 0x2192, 0xD1A0, 0xB108, 0x2192, 0x28, 0xC5D0, 0xC13C, 0xC2A4, 0x2F,
        0xC138, 0xB7FC, 0x29, 0x2192, 0xD06C, 0xB9BC, 0x20, 0xC21C, 0xC73C, 0xB85C, 0x20,
        0xB9C8, 0xBB34, 0xB9AC, 0xD558, 0xB294, 0x20, 0xBC29, 0xC2DD, 0xC774, 0x20, 0xC77C,
        0xBC18, 0xC801, 0xC785, 0xB2C8, 0xB2E4, 0x2E]),
      ([0xD5A5, 0xC774, 0xB098, 0x20, 0xC81C, 0xD615, 0xC774, 0x20, 0xAD81, 0xAE08, 0xD574,
        0xC694, 0x2E],
       [0xC81C, 0xD488, 0xBCC4, 0xB85C, 0x20, 0xC0C1, 0xC774, 0xD558, 0xBBC0, 0xB85C, 0x20,
        0xC0C1, 0xC138, 0x20, 0xD398, 0xC774, 0xC9C0, 0xC758, 0x20, 0xD45C, 0xAE30, 0x20,
        0xC815, 0xBCF4, 0xB97C, 0x20, 0xD655, 0xC778, 0xD558, 0xB294, 0x20, 0xAC83, 0xC744,
        0x20, 0xAD8C, 0xC7A5, 0xD569, 0xB2C8, 0xB2E4, 0x2E])]"

text \<open>
  The loop of \<open>ensure_faq\<close> over the candidates: it stops as soon as the list has
  \<open>min_faq\<close> entries and skips a candidate whose question is in \<open>existing_q\<close>.
\<close>

fun faq_loop :: "(ustr \<times> ustr) list \<Rightarrow> nat \<Rightarrow> faq_item list \<Rightarrow> ustr set \<Rightarrow> faq_item list" where
  "faq_loop [] min_faq fq existing_q = fq"
| "faq_loop ((qu, an) # cs) min_faq fq existing_q =
     (if length fq \<ge> min_faq then fq
      else if qu \<in> existing_q then faq_loop cs min_faq fq existing_q
      else faq_loop cs min_faq (fq @ [\<lparr> faq_q = qu, faq_a = an \<rparr>]) (insert qu existing_q))"

definition ensure_faq :: "page \<Rightarrow> ustr \<Rightarrow> nat \<Rightarrow> page" where
  "ensure_faq fixed primary_kw min_faq =
     (let fq = faq fixed;
          existing_q = set (map (\<lambda>item. strip (faq_q item)) fq);
          fq = faq_loop (faq_candidates primary_kw) min_faq fq existing_q
      in fixed \<lparr> faq := fq, has_faq_jsonld := True \<rparr>)"

text \<open>The default call to action depends on the intent.\<close>

definition ensure_cta :: "page \<Rightarrow> ustr \<Rightarrow> page" where
  "ensure_cta fixed intent =
     (if strip (cta fixed) \<noteq> [] then fixed
      else fixed \<lparr> cta := (if strip intent = purchase_intent
                            then [0xC9C0, 0xAE08, 0x20, 0xAD6C, 0xB9E4, 0xD558, 0xAE30]
                            else [0xC790, 0xC138, 0xD788, 0x20, 0xBCF4, 0xAE30]) \<rparr>)"

definition body_pad :: "ustr \<Rightarrow> ustr" where
  "body_pad primary_kw =
     asc ''<h2>'' @ primary_kw
     @ [0x20, 0xC120, 0xD0DD, 0x20, 0xAE30, 0xC900]
     @ asc ''</h2><p>'' @ primary_kw
     @ [0xB97C, 0x20, 0xC120, 0xD0DD, 0xD560, 0x20, 0xB54C, 0xB294, 0x20, 0xBCF4, 0xC2B5,
        0x20, 0xC9C0, 0xC18D, 0xAC10, 0x2C, 0x20, 0xC790, 0xADF9, 0x20, 0xAC00, 0xB2A5,
        0xC131, 0x28, 0xAC1C, 0xC778, 0xCC28]
     @ asc ''), ''
     @ [0xC0AC, 0xC6A9, 0xAC10, 0x28, 0xD761, 0xC218, 0x2F, 0xC794, 0xC5EC, 0xAC10]
     @ asc ''), ''
     @ [0xACC4, 0xC808, 0x2F, 0xC2B5, 0xB3C4, 0x20, 0xD658, 0xACBD, 0xC744, 0x20, 0xD568,
        0xAED8, 0x20, 0xACE0, 0xB824, 0xD558, 0xB294, 0x20, 0xAC83, 0xC774, 0x20, 0xC88B,
        0xC2B5, 0xB2C8, 0xB2E4]
     @ asc ''.</p><h2>''
     @ [0xC0AC, 0xC6A9, 0x20, 0xD301]
     @ asc ''</h2><p>''
     @ [0xD06C, 0xB9BC, 0xC740, 0x20, 0xC801, 0xB2F9, 0xB7C9, 0xC744, 0x20, 0xC5EC, 0xB7EC,
        0x20, 0xBC88, 0x20, 0xB808, 0xC774, 0xC5B4, 0xB9C1, 0xD558, 0xB294, 0x20, 0xBC29,
        0xC2DD, 0xC774, 0x20, 0xB354, 0x20, 0xD3B8, 0xC548, 0xD560, 0x20, 0xC218, 0x20,
        0xC788, 0xC2B5, 0xB2C8, 0xB2E4, 0x2E, 0x20, 0xAC74, 0xC870, 0xD55C, 0x20, 0xBD80,
        0xC704, 0xB294, 0x20, 0xC18C, 0xB7C9, 0xC744, 0x20, 0xD55C, 0x20, 0xBC88, 0x20,
        0xB354, 0x20, 0xB367, 0xBC14, 0xB974, 0xC138, 0xC694]
     @ asc ''.</p><h2>''
     @ [0xC8FC, 0xC758, 0x20, 0xC0AC, 0xD56D]
     @ asc ''</h2><p>''
     @ [0xC0AC, 0xC6A9, 0x20, 0xC911, 0x20, 0xBD89, 0xC5B4, 0xC9D0, 0x2F, 0xAC00, 0xB824,
        0xC6C0, 0x2F, 0xB530, 0xAC00, 0xC6C0, 0x20, 0xB4F1, 0x20, 0xC774, 0xC0C1, 0x20,
        0xBC18, 0xC751, 0xC774, 0x20, 0xC788, 0xC73C, 0xBA74, 0x20, 0xC0AC, 0xC6A9, 0xC744,
        0x20, 0xC911, 0xB2E8, 0xD558, 0xACE0, 0x20, 0xC804, 0xBB38, 0xAC00, 0xC640, 0x20,
        0xC0C1, 0xB2F4, 0xD558, 0xC138, 0xC694]
     @ asc ''.</p>''"

text \<open>
  The \<^verbatim>\<open>while wc < min_words and loops < 3\<close> loop of \<open>ensure_body_length\<close>: each round
  appends a newline and the pad and measures the words again.
\<close>

function body_length_loop :: "ustr \<Rightarrow> nat \<Rightarrow> ustr \<Rightarrow> nat \<Rightarrow> nat \<Rightarrow> ustr" where
  "body_length_loop pad min_words body wc loops =
     (if wc < min_words \<and> loops < 3
      then (let body = body @ [0x0A] @ pad;
                plain = strip_tags body;
                wc = word_count plain
            in body_length_loop pad min_words body wc (loops + 1))
      else body)"
  by pat_completeness auto
termination
  by (relation "measure (\<lambda>(pad, min_words, body, wc, loops). 3 - loops)") auto

declare body_length_loop.simps [simp del]

definition ensure_body_length :: "page \<Rightarrow> ustr \<Rightarrow> nat \<Rightarrow> page" where
  "ensure_body_length fixed primary_kw min_words =
     (let body = body_html fixed;
          plain = strip_tags body;
          wc = word_count plain
      in if wc \<ge> min_words then fixed
         else fixed \<lparr> body_html := body_length_loop (body_pad primary_kw) min_words body wc 0 \<rparr>)"

text \<open>\<^verbatim>\<open>str(n)\<close> of an integer, for the \<^verbatim>\<open>f"{base}/r/{run_id}"\<close> of \<open>ensure_canonical\<close>.\<close>

fun digits_of :: "nat \<Rightarrow> ustr" where
  "digits_of n = (if n < 10 then [0x30 + n] else digits_of (n div 10) @ [0x30 + n mod 10])"

declare digits_of.simps [simp del]

definition str_of_int :: "int \<Rightarrow> ustr" where
  "str_of_int i = (if i < 0 then 0x2D # digits_of (nat (- i)) else digits_of (nat i))"

definition ensure_canonical :: "page \<Rightarrow> int \<Rightarrow> ustr \<Rightarrow> page" where
  "ensure_canonical fixed run_id base_url =
     (let canonical = strip (canonical_url fixed)
      in if canonical \<noteq> [] then fixed
         else (let base = rstrip_char 0x2F
                            (if base_url \<noteq> [] then base_url else asc ''https://example.com'')
               in fixed \<lparr> canonical_url := base @ asc ''/r/'' @ str_of_int run_id \<rparr>))"

definition ensure_og :: "page \<Rightarrow> page" where
  "ensure_og fixed =
     (let fixed = fixed \<lparr> og_title := ensure_nonempty (og_title fixed) (meta_title fixed) \<rparr>
      in fixed \<lparr> og_description :=
                   ensure_nonempty (og_description fixed) (meta_description fixed) \<rparr>)"

text \<open>The two pad phrases of \<open>_rule_fix\<close>, after the keyword.\<close>

definition title_pad :: "ustr \<Rightarrow> ustr" where
  "title_pad primary_kw =
     primary_kw @ [0x20, 0xAC00, 0xC774, 0xB4DC] @ asc '' | ''
     @ [0xC120, 0xD0DD, 0x20, 0xAE30, 0xC900]"

definition description_pad :: "ustr \<Rightarrow> ustr" where
  "description_pad primary_kw =
     primary_kw
     @ [0x20, 0xC120, 0xD0DD, 0x20, 0xAE30, 0xC900, 0x2C, 0x20, 0xC0AC, 0xC6A9, 0x20, 0xB8E8,
        0xD2F4]
     @ asc '', FAQ''
     @ [0xB97C, 0x20, 0xC815, 0xB9AC, 0xD588, 0xC2B5, 0xB2C8, 0xB2E4, 0x2E, 0x20, 0xAC1C,
        0xC778, 0xCC28, 0xAC00, 0x20, 0xC788, 0xC5B4, 0x20, 0xD328, 0xCE58, 0x20, 0xD14C,
        0xC2A4, 0xD2B8, 0xB97C, 0x20, 0xAD8C, 0xC7A5, 0xD569, 0xB2C8, 0xB2E4, 0x2E]"

text \<open>
  \<open>_rule_fix\<close>. \<open>run_id\<close> and \<open>base_url\<close> may be \<^verbatim>\<open>None\<close>; the canonical URL is
  filled in only when both are given.
\<close>

definition rule_fix ::
    "unicode_tables \<Rightarrow> page \<Rightarrow> ustr \<Rightarrow> ustr list \<Rightarrow> ustr \<Rightarrow> int option \<Rightarrow> ustr option \<Rightarrow> page" where
  "rule_fix U pg primary_kw supporting intent run_id base_url =
     (let fixed = \<lparr> meta_title = strip (meta_title pg),
                     meta_description = strip (meta_description pg),
                     canonical_url = strip (canonical_url pg),
                     og_title = strip (og_title pg),
                     og_description = strip (og_description pg),
                     h1 = strip (h1 pg),
                     body_html = strip (body_html pg),
                     cta = strip (cta pg),
                     faq = faq pg,
                     has_faq_jsonld = has_faq_jsonld pg \<rparr>;
          fixed = fixed \<lparr> meta_title :=
                            clamp_text_len (meta_title fixed) 20 60 (title_pad primary_kw) \<rparr>;
          fixed = fixed \<lparr> meta_description :=
                            clamp_text_len (meta_description fixed) 60 170
                              (description_pad primary_kw) \<rparr>;
          fixed = ensure_h1 fixed primary_kw;
          fixed = ensure_cta fixed intent;
          fixed = ensure_h2_sections U fixed primary_kw intent;
          fixed = ensure_faq fixed primary_kw 3;
          fixed = ensure_body_length fixed primary_kw 360;
          fixed = fixed \<lparr> body_html := ensure_primary_in_intro (body_html fixed) primary_kw \<rparr>;
          fixed = fixed \<lparr> body_html := ensure_supporting_hits U (body_html fixed) supporting 2 \<rparr>;
          fixed = fixed \<lparr> body_html := ensure_disclaimer (body_html fixed) \<rparr>;
          fixed = fixed \<lparr> body_html :=
                            reduce_keyword_density (body_html fixed) primary_kw 0.03 \<rparr>;
          fixed = (case (run_id, base_url) of
                     (Some r, Some b) \<Rightarrow> ensure_canonical fixed r b
                   | _ \<Rightarrow> fixed)
      in ensure_og fixed)"

section \<open>Export operation (main.py, \<open>api_export\<close>)\<close>

datatype stage = DRAFT | AB_READY | APPROVED | AUDIT_DONE | FIXED | EXPORTED

record export_info =
  export_path :: ustr
  export_ts :: ustr

text \<open>
  A row of the run store, as \<open>get_run\<close> returns it. \<open>run_audit\<close> is the audit recorded
  last, \<^verbatim>\<open>None\<close> when none was; every writer of it stores a result of
  \<open>seo_audit_page\<close>.
\<close>

record run =
  run_stage :: stage
  run_updated_at :: ustr
  run_primary_keyword :: ustr
  run_supporting_keywords :: "ustr list"
  run_intent :: ustr
  run_content :: page
  run_audit :: "audit_result option"
  run_fixed :: "page option"
  run_export :: "export_info option"

record job_log =
  log_run_id :: int
  log_job_name :: ustr
  log_status :: ustr
  log_elapsed_ms :: int
  log_detail :: ustr

text \<open>
  What the operation reads and writes: the rows of the run store, the files of the
  export directory and the job log.
\<close>

record app_state =
  runs :: "int \<rightharpoonup> run"
  exported_files :: "ustr \<rightharpoonup> ustr"
  job_logs :: "job_log list"

text \<open>
  What the operation takes from outside: the clock, the request's base URL, the export
  directory, the HTML renderer (out of scope, a function of the run and the base URL),
  the elapsed time it measures, and whether the insert of \<open>_log_job\<close> succeeds (it
  swallows every exception).
\<close>

record env =
  env_now :: ustr
  env_base_url :: ustr
  env_export_dir :: ustr
  env_render :: "run \<Rightarrow> ustr \<Rightarrow> ustr"
  env_elapsed_ms :: int
  env_log_ok :: bool

datatype response =
    JsonError nat ustr "audit_result option"
  | ExportOk int ustr export_info run

definition grade_str :: "grade \<Rightarrow> ustr" where
  "grade_str g = (case g of PASS \<Rightarrow> asc ''PASS'' | WARN \<Rightarrow> asc ''WARN''
                  | FAIL \<Rightarrow> asc ''FAIL'' | INFO \<Rightarrow> asc ''INFO'')"

text \<open>
  \<^verbatim>\<open>(audit.get("overall") or "UNKNOWN").strip().upper()\<close>: on the verdicts the audit
  records, \<^verbatim>\<open>strip\<close> and \<^verbatim>\<open>upper\<close> change nothing.
\<close>

definition current_overall :: "run \<Rightarrow> ustr" where
  "current_overall r =
     (case run_audit r of None \<Rightarrow> asc ''UNKNOWN'' | Some a \<Rightarrow> grade_str (overall a))"

definition log_job :: "env \<Rightarrow> int \<Rightarrow> ustr \<Rightarrow> ustr \<Rightarrow> int \<Rightarrow> ustr \<Rightarrow> app_state \<Rightarrow> app_state" where
  "log_job e rid name status elapsed detail st =
     (if env_log_ok e
      then st \<lparr> job_logs := job_logs st
                  @ [\<lparr> log_run_id = rid, log_job_name = name, log_status = status,
                       log_elapsed_ms = elapsed, log_detail = detail \<rparr>] \<rparr>
      else st)"

text \<open>\<open>update_run\<close> with the two fields \<open>export\<close> and \<open>stage\<close>; it also sets \<open>updated_at\<close>.\<close>

definition update_run_export :: "env \<Rightarrow> int \<Rightarrow> export_info \<Rightarrow> app_state \<Rightarrow> app_state" where
  "update_run_export e rid ex st =
     (case runs st rid of
        None \<Rightarrow> st
      | Some r \<Rightarrow> st \<lparr> runs := (runs st)(rid \<mapsto>
                        r \<lparr> run_export := Some ex, run_stage := EXPORTED,
                            run_updated_at := env_now e \<rparr>) \<rparr>)"

definition blocked_message :: "ustr \<Rightarrow> ustr" where
  "blocked_message ov =
     asc ''Export blocked: requires PASS (current='' @ ov @ asc ''). Run Audit ''
     @ [0x2192] @ asc '' Fix/Auto first.''"

definition api_export :: "env \<Rightarrow> int \<Rightarrow> app_state \<Rightarrow> response \<times> app_state" where
  "api_export e rid st =
     (case runs st rid of
        None \<Rightarrow>
          (JsonError 404 (asc [CHR 0x27] @ asc ''run_id '' @ str_of_int rid @ asc '' not found''
                          @ asc [CHR 0x27]) None, st)
      | Some r \<Rightarrow>
          (let ov = current_overall r in
           if ov \<noteq> asc ''PASS'' then
             (let st = log_job e rid (asc ''EXPORT'') (asc ''ERR'') 0
                         (asc ''blocked (current='' @ ov @ asc '')'') st
              in (JsonError 400 (blocked_message ov) (run_audit r), st))
           else
             (let html = env_render e r (env_base_url e);
                  out = env_export_dir e @ asc ''/run_'' @ str_of_int rid @ asc ''.html'';
                  st = st \<lparr> exported_files := (exported_files st)(out \<mapsto> html) \<rparr>;
                  ex = \<lparr> export_path = out, export_ts = env_now e \<rparr>;
                  st = update_run_export e rid ex st;
                  r' = (case runs st rid of Some x \<Rightarrow> x | None \<Rightarrow> r);
                  st = log_job e rid (asc ''EXPORT'') (asc ''OK'') (env_elapsed_ms e)
                         (asc ''export'') st
              in (ExportOk rid out ex r', st))))"

section \<open>Properties of the A/B engine\<close>

lemma count_events_append:
  "count_events v n (xs @ ys) = count_events v n xs + count_events v n ys"
  by (simp add: count_events_def)

lemma count_events_skips:
  assumes "\<not> in_domain e" and "v = ''A'' \<or> v = ''B''" and "n = ''view'' \<or> n = ''cta_click''"
  shows "count_events v n [e] = 0"
  using assms by (auto simp: count_events_def in_domain_def)

lemma count_events_out_of_domain:
  assumes "\<not> in_domain e" and "v = ''A'' \<or> v = ''B''" and "n = ''view'' \<or> n = ''cta_click''"
  shows "count_events v n (events @ [e]) = count_events v n events"
  using count_events_skips [OF assms] by (simp add: count_events_append)

text \<open>
  C10. Appending an event whose variant is not "A" or "B", or whose event name is
  not "view" or "cta\_click", leaves the whole summary unchanged: views, clicks and
  CTR of both variants, uplift, z, p-value and the recommendation.
\<close>

theorem ab_ctr_summary_ignores_out_of_domain:
  assumes "\<not> in_domain e"
  shows "ab_ctr_summary erf (events @ [e]) m = ab_ctr_summary erf events m"
  unfolding ab_ctr_summary_def
  by (simp only: count_events_out_of_domain [OF assms] simp_thms)

theorem ab_ctr_summary_ignores_out_of_domain_witness:
  "\<not> in_domain \<lparr> variant = Some (asc ''C''), event_name = Some (asc ''view'') \<rparr>
   \<and> ab_ctr_summary (\<lambda>x. 0)
        ([\<lparr> variant = Some (asc ''A''), event_name = Some (asc ''view'') \<rparr>]
          @ [\<lparr> variant = Some (asc ''C''), event_name = Some (asc ''view'') \<rparr>]) 20
     = ab_ctr_summary (\<lambda>x. 0) [\<lparr> variant = Some (asc ''A''), event_name = Some (asc ''view'') \<rparr>] 20"
proof -
  have h: "\<not> in_domain \<lparr> variant = Some (asc ''C''), event_name = Some (asc ''view'') \<rparr>"
    by (simp add: in_domain_def asc_def)
  from h show ?thesis
    by (intro conjI ab_ctr_summary_ignores_out_of_domain)
qed
section \<open>Properties of the audit engine\<close>

text \<open>The penalty and severity columns of the rule table of the specification.\<close>

definition spec_penalty :: "rule \<Rightarrow> int" where
  "spec_penalty r =
     (case r of T001 \<Rightarrow> 25 | T002 \<Rightarrow> 10 | T003 \<Rightarrow> 25 | T004 \<Rightarrow> 10 | T005 \<Rightarrow> 10 | T006 \<Rightarrow> 25
      | T007 \<Rightarrow> 2 | C001 \<Rightarrow> 25 | C002 \<Rightarrow> 10 | C003 \<Rightarrow> 10 | C004 \<Rightarrow> 25 | C005 \<Rightarrow> 10
      | C007 \<Rightarrow> 25 | E002 \<Rightarrow> 25 | E001 \<Rightarrow> 10 | S001 \<Rightarrow> 10 | S002 \<Rightarrow> 10)"

definition spec_severity :: "rule \<Rightarrow> grade" where
  "spec_severity r =
     (case r of T001 \<Rightarrow> FAIL | T002 \<Rightarrow> WARN | T003 \<Rightarrow> FAIL | T004 \<Rightarrow> WARN | T005 \<Rightarrow> WARN
      | T006 \<Rightarrow> FAIL | T007 \<Rightarrow> INFO | C001 \<Rightarrow> FAIL | C002 \<Rightarrow> WARN | C003 \<Rightarrow> WARN
      | C004 \<Rightarrow> FAIL | C005 \<Rightarrow> WARN | C007 \<Rightarrow> FAIL | E002 \<Rightarrow> FAIL | E001 \<Rightarrow> WARN
      | S001 \<Rightarrow> WARN | S002 \<Rightarrow> WARN)"

lemma issues_step1:
  "acc_issues ((if c then add r s p else id) st)
     = acc_issues st @ (if c then [\<lparr> rule_id = r, severity = s \<rparr>] else [])"
  by (simp add: add_def)

lemma issues_step2:
  "acc_issues ((if c then add r s p else if c' then add r' s' p' else id) st)
     = acc_issues st @ (if c then [\<lparr> rule_id = r, severity = s \<rparr>]
                        else if c' then [\<lparr> rule_id = r', severity = s' \<rparr>] else [])"
  by (simp add: add_def)

lemma penalty_step1:
  "acc_penalty ((if c then add r s p else id) st) = acc_penalty st + (if c then p else 0)"
  by (simp add: add_def)

lemma penalty_step2:
  "acc_penalty ((if c then add r s p else if c' then add r' s' p' else id) st)
     = acc_penalty st + (if c then p else if c' then p' else 0)"
  by (simp add: add_def)

lemmas audit_steps = issues_step2 issues_step1 penalty_step2 penalty_step1

lemma sum_map_if1: "sum_list (map f (if c then [x] else [])) = (if c then f x else (0::int))"
  by simp

lemma sum_map_if2:
  "sum_list (map f (if c then [x] else if c' then [y] else []))
     = (if c then f x else if c' then f y else (0::int))"
  by simp

lemma audit_rules_penalty:
  "acc_penalty (audit_rules U pg kw sks sg)
     = sum_list (map (\<lambda>i. spec_penalty (rule_id i)) (acc_issues (audit_rules U pg kw sks sg)))"
  unfolding audit_rules_def Let_def audit_steps
  by (simp only: map_append sum_list_append sum_map_if1 sum_map_if2 list.map sum_list.Nil
        issue.simps spec_penalty_def rule.case audit_acc.simps)

lemma all_step1:
  "list_all P (xs @ (if c then [x] else [])) = (list_all P xs \<and> (c \<longrightarrow> P x))"
  by simp

lemma all_step2:
  "list_all P (xs @ (if c then [x] else if c' then [y] else []))
     = (list_all P xs \<and> (c \<longrightarrow> P x) \<and> (\<not> c \<and> c' \<longrightarrow> P y))"
  by simp

lemma audit_rules_severity:
  "list_all (\<lambda>i. severity i = spec_severity (rule_id i)) (acc_issues (audit_rules U pg kw sks sg))"
  unfolding audit_rules_def Let_def audit_steps
  by (simp only: all_step1 all_step2 audit_acc.simps list.pred_inject issue.simps spec_severity_def
        rule.case simp_thms)

lemma mem_step1:
  "x \<in> set (map rule_id (xs @ (if c then [\<lparr> rule_id = r, severity = s \<rparr>] else [])))
     \<longleftrightarrow> x \<in> set (map rule_id xs) \<or> (c \<and> x = r)"
  by auto

lemma mem_step2:
  "x \<in> set (map rule_id (xs @ (if c then [\<lparr> rule_id = r, severity = s \<rparr>]
                                else if c' then [\<lparr> rule_id = r', severity = s' \<rparr>] else [])))
     \<longleftrightarrow> x \<in> set (map rule_id xs) \<or> (c \<and> x = r) \<or> (\<not> c \<and> c' \<and> x = r')"
  by auto

lemmas mem_steps = mem_step2 mem_step1 audit_acc.simps list.map list.set empty_iff
  rule.distinct simp_thms

lemma overall_of_FAIL: "overall_of is = FAIL \<longleftrightarrow> (\<exists>i \<in> set is. severity i = FAIL)"
  by (simp add: overall_of_def list_ex_iff Let_def)

lemma overall_of_WARN:
  "overall_of is = WARN
     \<longleftrightarrow> \<not> (\<exists>i \<in> set is. severity i = FAIL) \<and> 2 \<le> length (filter (\<lambda>i. severity i = WARN) is)"
  by (simp add: overall_of_def list_ex_iff Let_def)

lemma overall_of_PASS:
  "overall_of is = PASS
     \<longleftrightarrow> \<not> (\<exists>i \<in> set is. severity i = FAIL) \<and> length (filter (\<lambda>i. severity i = WARN) is) < 2"
  by (auto simp add: overall_of_def list_ex_iff Let_def)

lemma overall_of_ignores_INFO:
  "overall_of (filter (\<lambda>i. severity i \<noteq> INFO) is) = overall_of is"
proof -
  have "filter (\<lambda>i. severity i = WARN) (filter (\<lambda>i. severity i \<noteq> INFO) is)
          = filter (\<lambda>i. severity i = WARN) is"
    by (induction "is") auto
  moreover have "list_ex (\<lambda>i. severity i = FAIL) (filter (\<lambda>i. severity i \<noteq> INFO) is)
          = list_ex (\<lambda>i. severity i = FAIL) is"
    by (induction "is") auto
  ultimately show ?thesis by (simp add: overall_of_def)
qed

text \<open>
  C4. The score is \<open>max 0 (100 - \<Sum> penalties)\<close> over the emitted issues, with the
  penalty of each issue taken from the rule table of the specification. The verdict is
  FAIL exactly when some issue has severity FAIL, WARN exactly when none has and at least
  two have severity WARN, and PASS otherwise; removing the INFO issues from the list
  does not change it.
\<close>

theorem audit_score_and_verdict:
  fixes U pg kw sks intent
  defines "res \<equiv> seo_audit_page U pg kw sks intent"
  shows "score res = max 0 (100 - sum_list (map (\<lambda>i. spec_penalty (rule_id i)) (issues res)))
    \<and> (overall res = FAIL \<longleftrightarrow> (\<exists>i \<in> set (issues res). severity i = FAIL))
    \<and> (overall res = WARN \<longleftrightarrow>
          \<not> (\<exists>i \<in> set (issues res). severity i = FAIL)
          \<and> 2 \<le> length (filter (\<lambda>i. severity i = WARN) (issues res)))
    \<and> (overall res = PASS \<longleftrightarrow>
          \<not> (\<exists>i \<in> set (issues res). severity i = FAIL)
          \<and> length (filter (\<lambda>i. severity i = WARN) (issues res)) < 2)
    \<and> overall res = overall_of (filter (\<lambda>i. severity i \<noteq> INFO) (issues res))"
proof -
  have i: "issues res = acc_issues (audit_rules U pg kw sks (audit_signals_of U pg kw sks))"
    and o: "overall res = overall_of (issues res)"
    and s: "score res = max 0 (100 - acc_penalty (audit_rules U pg kw sks (audit_signals_of U pg kw sks)))"
    by (simp_all add: res_def seo_audit_page_def Let_def)
  show ?thesis
    unfolding o overall_of_FAIL overall_of_WARN overall_of_PASS overall_of_ignores_INFO
    by (simp add: s i audit_rules_penalty [symmetric])
qed

lemma S002_mem:
  "S002 \<in> set (map rule_id (acc_issues (audit_rules U pg kw sks sg)))
     \<longleftrightarrow> faq_count_sig sg \<ge> 3 \<and> \<not> has_faq_jsonld_sig sg"
  unfolding audit_rules_def Let_def audit_steps
  by (simp only: mem_steps)

lemma faq_count_le: "faq_count fs \<le> length fs"
  by (simp add: faq_count_def)

text \<open>
  C8. The claim asks for an S002 issue on a page with three complete FAQ entries and
  \<open>has_faq_jsonld\<close> false. The audit never emits S002, on any page: it reads the flag
  as true whenever the FAQ list has three entries, and three complete entries are three
  entries.
\<close>

theorem audit_never_emits_S002:
  "S002 \<notin> set (map rule_id (issues (seo_audit_page U pg kw sks intent)))"
proof -
  have "issues (seo_audit_page U pg kw sks intent)
          = acc_issues (audit_rules U pg kw sks (audit_signals_of U pg kw sks))"
    by (simp add: seo_audit_page_def Let_def)
  moreover have "faq_count_sig (audit_signals_of U pg kw sks) = faq_count (faq pg)"
    and "has_faq_jsonld_sig (audit_signals_of U pg kw sks) = (has_faq_jsonld pg \<or> 3 \<le> length (faq pg))"
    by (simp_all add: audit_signals_of_def Let_def)
  ultimately show ?thesis
    using faq_count_le [of "faq pg"] by (auto simp only: S002_mem)
qed
section \<open>Properties of the export operation\<close>

lemma py_in_prefix: "prefix x s \<Longrightarrow> py_in x s"
  by (cases s) auto

lemma py_in_infix: "py_in x (a @ x @ b)"
  by (induction a) (auto intro: py_in_prefix)

lemma current_overall_PASS:
  "current_overall r = asc ''PASS'' \<longleftrightarrow> (\<exists>a. run_audit r = Some a \<and> overall a = PASS)"
  by (cases "run_audit r") (auto simp: current_overall_def grade_str_def asc_def split: grade.splits)

lemma log_job_frame:
  "runs (log_job e rid n s el d st) = runs st"
  "exported_files (log_job e rid n s el d st) = exported_files st"
  by (simp_all add: log_job_def)

text \<open>
  C6. For a run that exists, the export goes ahead exactly when the audit recorded last
  has the verdict PASS. In every other case (WARN, FAIL, no audit recorded) the answer
  is the error response with status 400 whose message names the current verdict and
  which carries the recorded audit; no file is written and no row of the run store
  changes (one line is added to the job log). With PASS the rendered page is written
  and the run is stored with stage EXPORTED.
\<close>

theorem export_gate:
  assumes "runs st rid = Some r"
  shows "(current_overall r = asc ''PASS'' \<longleftrightarrow> (\<exists>a. run_audit r = Some a \<and> overall a = PASS))
    \<and> (if current_overall r \<noteq> asc ''PASS''
        then fst (api_export e rid st)
               = JsonError 400 (blocked_message (current_overall r)) (run_audit r)
             \<and> py_in (current_overall r) (blocked_message (current_overall r))
             \<and> runs (snd (api_export e rid st)) = runs st
             \<and> exported_files (snd (api_export e rid st)) = exported_files st
        else (\<exists>out ex r'.
               fst (api_export e rid st) = ExportOk rid out ex r'
             \<and> exported_files (snd (api_export e rid st)) out = Some (env_render e r (env_base_url e))
             \<and> runs (snd (api_export e rid st)) rid = Some r'
             \<and> run_stage r' = EXPORTED \<and> run_export r' = Some ex \<and> export_path ex = out))"
proof (cases "current_overall r = asc ''PASS''")
  case True
  with assms show ?thesis
    by (simp add: current_overall_PASS [symmetric] api_export_def Let_def log_job_frame
        update_run_export_def)
next
  case False
  have "py_in (current_overall r) (blocked_message (current_overall r))"
    unfolding blocked_message_def by (rule py_in_infix)
  with False assms show ?thesis
    by (simp add: current_overall_PASS [symmetric] api_export_def Let_def log_job_frame)
qed

lemma api_export_unknown_run:
  "runs st rid = None \<Longrightarrow> snd (api_export e rid st) = st \<and> (\<exists>m. fst (api_export e rid st) = JsonError 404 m None)"
  by (simp add: api_export_def)

definition blank_page :: page where
  "blank_page = \<lparr> meta_title = [], meta_description = [], canonical_url = [], og_title = [],
     og_description = [], h1 = [], body_html = [], cta = [], faq = [], has_faq_jsonld = False \<rparr>"

definition demo_signals :: audit_signals where
  "demo_signals = \<lparr> title_len = 0, desc_len = 0, h1_count = 0, h2_count = 0, word_count_sig = 0,
     primary_kw_in_h1 = False, primary_kw_in_first120 = False, supporting_kw_hits = 0,
     faq_count_sig = 0, has_faq_jsonld_sig = False, primary_kw_density_pct = 0 \<rparr>"

definition demo_run :: "audit_result option \<Rightarrow> run" where
  "demo_run a = \<lparr> run_stage = AUDIT_DONE, run_updated_at = [], run_primary_keyword = asc ''cream'',
     run_supporting_keywords = [], run_intent = purchase_intent, run_content = blank_page,
     run_audit = a, run_fixed = None, run_export = None \<rparr>"

definition demo_state :: "audit_result option \<Rightarrow> app_state" where
  "demo_state a = \<lparr> runs = [7 \<mapsto> demo_run a], exported_files = Map.empty, job_logs = [] \<rparr>"

definition demo_env :: env where
  "demo_env = \<lparr> env_now = asc ''2026-01-01 00:00:00'', env_base_url = asc ''http://h'',
     env_export_dir = asc ''exports'', env_render = (\<lambda>r b. asc ''<html></html>''),
     env_elapsed_ms = 1, env_log_ok = True \<rparr>"

definition warn_audit :: audit_result where
  "warn_audit = \<lparr> overall = WARN, score = 80,
     issues = [\<lparr> rule_id = T005, severity = WARN \<rparr>, \<lparr> rule_id = E001, severity = WARN \<rparr>],
     signals = demo_signals \<rparr>"

theorem export_gate_witness:
  "runs (demo_state (Some warn_audit)) 7 = Some (demo_run (Some warn_audit))
   \<and> fst (api_export demo_env 7 (demo_state (Some warn_audit)))
       = JsonError 400 (blocked_message (asc ''WARN'')) (Some warn_audit)
   \<and> runs (snd (api_export demo_env 7 (demo_state (Some warn_audit))))
       = runs (demo_state (Some warn_audit))
   \<and> exported_files (snd (api_export demo_env 7 (demo_state (Some warn_audit)))) = Map.empty"
proof -
  have h: "runs (demo_state (Some warn_audit)) 7 = Some (demo_run (Some warn_audit))"
    by (simp add: demo_state_def)
  have c: "current_overall (demo_run (Some warn_audit)) = asc ''WARN''"
    by (simp add: current_overall_def demo_run_def warn_audit_def grade_str_def)
  have n: "asc ''WARN'' \<noteq> asc ''PASS''"
    by (simp add: asc_def)
  have e: "exported_files (demo_state (Some warn_audit)) = Map.empty"
    by (simp add: demo_state_def)
  have a: "run_audit (demo_run (Some warn_audit)) = Some warn_audit"
    by (simp add: demo_run_def)
  from export_gate [OF h, of demo_env] show ?thesis
    by (simp only: c n a if_True h e) simp
qed
section \<open>Properties of the enforcement engine\<close>

subsection \<open>The body-length loop\<close>

text \<open>The body after \<open>k\<close> rounds of the loop, and the words measured on it.\<close>

definition padded :: "ustr \<Rightarrow> ustr \<Rightarrow> nat \<Rightarrow> ustr" where
  "padded body pad k = body @ concat (replicate k (0x0A # pad))"

definition measured :: "ustr \<Rightarrow> ustr \<Rightarrow> nat \<Rightarrow> nat" where
  "measured body pad k = word_count (strip_tags (padded body pad k))"

lemma padded_0: "padded body pad 0 = body"
  by (simp add: padded_def)

lemma padded_Suc: "padded (body @ 0x0A # pad) pad k = padded body pad (Suc k)"
  by (simp add: padded_def)

lemma measured_Suc: "measured (body @ 0x0A # pad) pad k = measured body pad (Suc k)"
  by (simp add: measured_def padded_Suc)

lemma upt_all_Suc:
  "list_all P [0..<Suc k] \<longleftrightarrow> P 0 \<and> list_all (\<lambda>j. P (Suc j)) [0..<k]"
proof -
  have "[0..<Suc k] = 0 # map Suc [0..<k]"
    by (simp add: upt_conv_Cons map_Suc_upt del: upt_Suc)
  then show ?thesis
    by (simp only: list.pred_inject list.pred_map o_def)
qed

lemma body_length_loop_rounds:
  assumes "wc = measured body pad 0" and "loops \<le> 3"
  shows "\<exists>k. k + loops \<le> 3
           \<and> body_length_loop pad m body wc loops = padded body pad k
           \<and> (k + loops = 3 \<or> m \<le> measured body pad k)
           \<and> list_all (\<lambda>j. measured body pad j < m) [0..<k]"
  using assms
proof (induction pad m body wc loops rule: body_length_loop.induct)
  case (1 pad m body wc loops)
  show ?case
  proof (cases "wc < m \<and> loops < 3")
    case False
    have "body_length_loop pad m body wc loops = body"
      by (subst body_length_loop.simps) (simp only: False if_False)
    with False "1.prems" have "0 + loops \<le> 3 \<and> body_length_loop pad m body wc loops = padded body pad 0
       \<and> (0 + loops = 3 \<or> m \<le> measured body pad 0)
       \<and> list_all (\<lambda>j. measured body pad j < m) [0..<0]"
      by (auto simp: padded_0)
    then show ?thesis by blast
  next
    case True
    define body' where "body' = body @ 0x0A # pad"
    define wc' where "wc' = word_count (strip_tags body')"
    have step: "body_length_loop pad m body wc loops = body_length_loop pad m body' wc' (loops + 1)"
      by (subst body_length_loop.simps) (simp only: True if_True simp_thms Let_def body'_def wc'_def append_Cons append_Nil)
    have "wc' = measured body' pad 0"
      by (simp add: wc'_def measured_def padded_0)
    moreover from True have "loops + 1 \<le> 3" by simp
    ultimately obtain k where k: "k + (loops + 1) \<le> 3"
      "body_length_loop pad m body' wc' (loops + 1) = padded body' pad k"
      "k + (loops + 1) = 3 \<or> m \<le> measured body' pad k"
      "list_all (\<lambda>j. measured body' pad j < m) [0..<k]"
      using "1.IH" [OF True, of body' "strip_tags body'" wc'] 
      by (auto simp: body'_def wc'_def)
    from True "1.prems" have first: "measured body pad 0 < m" by simp
    have "Suc k + loops \<le> 3 \<and> body_length_loop pad m body wc loops = padded body pad (Suc k)
       \<and> (Suc k + loops = 3 \<or> m \<le> measured body pad (Suc k))
       \<and> list_all (\<lambda>j. measured body pad j < m) [0..<Suc k]"
      using k first unfolding step upt_all_Suc
      by (simp add: body'_def padded_Suc measured_Suc)
    then show ?thesis by blast
  qed
qed

text \<open>
  C9. \<open>ensure_body_length\<close> returns for every page: its loop is defined with the measure
  \<open>3 - loops\<close>. It appends the pad \<open>k \<le> 3\<close> times and changes no other field;
  \<open>k = 0\<close> when the body already has \<open>m\<close> words (360 in \<open>_rule_fix\<close>); otherwise
  it appends at least once and stops at three rounds or as soon as the words measured on
  the padded body reach \<open>m\<close>, each earlier round having measured fewer than \<open>m\<close>.
  All other functions of the engine are non-recursive or recursive on the structure of a
  list or on a decreasing length, so \<open>rule_fix\<close> is a total function.
\<close>

theorem ensure_body_length_bounded:
  "\<exists>k \<le> 3.
     ensure_body_length fixed kw m = fixed \<lparr> body_html := padded (body_html fixed) (body_pad kw) k \<rparr>
     \<and> (if m \<le> word_count (strip_tags (body_html fixed)) then k = 0
        else 1 \<le> k \<and> (k = 3 \<or> m \<le> measured (body_html fixed) (body_pad kw) k))
     \<and> list_all (\<lambda>j. measured (body_html fixed) (body_pad kw) j < m) [0..<k]"
proof (cases "m \<le> word_count (strip_tags (body_html fixed))")
  case True
  then have "ensure_body_length fixed kw m = fixed \<lparr> body_html := padded (body_html fixed) (body_pad kw) 0 \<rparr>"
    by (simp add: ensure_body_length_def padded_0)
  with True show ?thesis by auto
next
  case False
  define b where "b = body_html fixed"
  define wc where "wc = word_count (strip_tags b)"
  have wc: "wc = measured b (body_pad kw) 0"
    by (simp add: wc_def measured_def padded_0)
  from body_length_loop_rounds [OF wc, of 0 m] obtain k where k: "k \<le> 3"
    "body_length_loop (body_pad kw) m b wc 0 = padded b (body_pad kw) k"
    "k = 3 \<or> m \<le> measured b (body_pad kw) k"
    "list_all (\<lambda>j. measured b (body_pad kw) j < m) [0..<k]"
    by auto
  have "k \<noteq> 0"
  proof
    assume "k = 0"
    with k(3) have "m \<le> measured b (body_pad kw) 0" by simp
    with False show False by (simp add: measured_def padded_0 b_def)
  qed
  moreover have "ensure_body_length fixed kw m = fixed \<lparr> body_html := padded b (body_pad kw) k \<rparr>"
    using False k(2) by (simp add: ensure_body_length_def Let_def b_def wc_def)
  ultimately show ?thesis
    using False k(1,3,4) unfolding b_def by (intro exI [of _ k]) auto
qed

end
